theory Spec2Isabelle
  imports Main
begin

section \<open>Values, errors and effects\<close>

text \<open>
  The module \<^verbatim>\<open>src/index.js\<close> builds SQL text by string concatenation and hands it,
  with a list of bound values, to a pooled PostgreSQL client. JavaScript values are
  modelled by \<open>jsval\<close>. An object is the list of its own enumerable entries in enumeration
  order (the order of \<^verbatim>\<open>Object.keys\<close>, \<^verbatim>\<open>Object.values\<close> and \<^verbatim>\<open>Object.entries\<close>). Where the
  module reads a property by name (\<^verbatim>\<open>obj[k]\<close>), the object also carries the properties
  that such a read reaches beyond its own enumerable ones, see \<open>row_object\<close>. Strings are
  byte lists, numbers in placeholders are unbounded naturals.
\<close>

datatype jsval =
    JUndefined
  | JNull
  | JBool bool
  | JNum int
  | JStr string
  | JArray "jsval list"
  | JObject "(string \<times> jsval) list"
  | JFunction string

type_synonym obj = "(string \<times> jsval) list"

text \<open>Column declarations for create/alter: column name to type declaration.\<close>

type_synonym coldefs = "(string \<times> string) list"

text \<open>
  \<open>Error m\<close> is \<^verbatim>\<open>new Error(m)\<close> thrown by this module; \<open>ClientError m\<close> is whatever the
  pool or the client rejects with; \<open>TypeError m\<close> is thrown by the language itself.
\<close>

datatype error = Error string | ClientError string | TypeError string

datatype event =
    Acquire
  | Execute string "jsval list"
  | Release
  | ConsoleError string error

text \<open>
  The pool and its clients are the environment: \<open>connect_result\<close> is the outcome of
  \<^verbatim>\<open>pool.connect()\<close> (\<open>None\<close>: a client is handed out), \<open>run_statement\<close> the outcome of
  \<^verbatim>\<open>client.query(text, params)\<close> (the rows, or a rejection).
\<close>

record pool =
  connect_result :: "error option"
  run_statement :: "string \<Rightarrow> jsval list \<Rightarrow> error + jsval list"

text \<open>A computation yields the events it caused and either a thrown error or a value.\<close>

type_synonym 'a io = "event list \<times> (error + 'a)"

definition ret :: "'a \<Rightarrow> 'a io" where
  "ret x = ([], Inr x)"

definition throw :: "error \<Rightarrow> 'a io" where
  "throw e = ([], Inl e)"

definition bind :: "'a io \<Rightarrow> ('a \<Rightarrow> 'b io) \<Rightarrow> 'b io" where
  "bind m f =
     (case m of
        (t, Inl e) \<Rightarrow> (t, Inl e)
      | (t, Inr x) \<Rightarrow> (case f x of (t', r) \<Rightarrow> (t @ t', r)))"

text \<open>\<^verbatim>\<open>try { m } finally { fin }\<close>: \<open>fin\<close> always runs; its own failure would win.\<close>

definition try_finally :: "'a io \<Rightarrow> unit io \<Rightarrow> 'a io" where
  "try_finally m fin =
     (case m of (t, r) \<Rightarrow>
        (case fin of
           (t', Inl e) \<Rightarrow> (t @ t', Inl e)
         | (t', Inr u) \<Rightarrow> (t @ t', r)))"

text \<open>\<^verbatim>\<open>try { m } catch (error) { h error }\<close>.\<close>

definition try_catch :: "'a io \<Rightarrow> (error \<Rightarrow> 'a io) \<Rightarrow> 'a io" where
  "try_catch m h =
     (case m of
        (t, Inl e) \<Rightarrow> (case h e of (t', r) \<Rightarrow> (t @ t', r))
      | (t, Inr x) \<Rightarrow> (t, Inr x))"

definition pool_connect :: "pool \<Rightarrow> unit io" where
  "pool_connect p =
     (case connect_result p of
        Some e \<Rightarrow> ([], Inl e)
      | None \<Rightarrow> ([Acquire], Inr ()))"

definition client_query :: "pool \<Rightarrow> string \<Rightarrow> jsval list \<Rightarrow> jsval io" where
  "client_query p text params =
     ([Execute text params],
      (case run_statement p text params of
         Inl e \<Rightarrow> Inl e
       | Inr rows \<Rightarrow> Inr (JArray rows)))"

definition client_release :: "unit io" where
  "client_release = ([Release], Inr ())"

definition console_error :: "string \<Rightarrow> error \<Rightarrow> unit io" where
  "console_error label e = ([ConsoleError label e], Inr ())"

section \<open>JavaScript library functions used by the module\<close>

definition Object_keys :: "(string \<times> 'v) list \<Rightarrow> string list" where
  "Object_keys o' = map fst o'"

definition Object_values :: "(string \<times> 'v) list \<Rightarrow> 'v list" where
  "Object_values o' = map snd o'"

definition Object_entries :: "(string \<times> 'v) list \<Rightarrow> (string \<times> 'v) list" where
  "Object_entries o' = o'"

text \<open>
  An object that is read by property name. \<open>own_props\<close> are its own enumerable entries,
  the ones \<^verbatim>\<open>Object.keys\<close> lists. \<open>proto_props\<close> are the further properties a read reaches:
  those of its prototype chain, nearest first (and own properties that are not
  enumerable).
\<close>

record row_object =
  own_props :: obj
  proto_props :: obj

text \<open>
  \<^verbatim>\<open>obj[k]\<close>: the value of the own property \<open>k\<close>; without one, the value found along the
  prototype chain; \<^verbatim>\<open>undefined\<close> when there is none either.
\<close>

definition get_prop :: "row_object \<Rightarrow> string \<Rightarrow> jsval" where
  "get_prop ob k =
     (case map_of (own_props ob) k of
        Some v \<Rightarrow> v
      | None \<Rightarrow>
          (case map_of (proto_props ob) k of
             Some v \<Rightarrow> v
           | None \<Rightarrow> JUndefined))"

text \<open>
  The members every object written as a literal inherits from \<^verbatim>\<open>Object.prototype\<close>, and the
  object a literal with the given entries denotes.
\<close>

definition object_prototype :: obj where
  "object_prototype =
     [(''constructor'', JFunction ''Object''),
      (''hasOwnProperty'', JFunction ''hasOwnProperty''),
      (''isPrototypeOf'', JFunction ''isPrototypeOf''),
      (''propertyIsEnumerable'', JFunction ''propertyIsEnumerable''),
      (''toLocaleString'', JFunction ''toLocaleString''),
      (''toString'', JFunction ''toString''),
      (''valueOf'', JFunction ''valueOf''),
      (''__defineGetter__'', JFunction ''__defineGetter__''),
      (''__defineSetter__'', JFunction ''__defineSetter__''),
      (''__lookupGetter__'', JFunction ''__lookupGetter__''),
      (''__lookupSetter__'', JFunction ''__lookupSetter__''),
      (''__proto__'', JObject [])]"

definition literal :: "obj \<Rightarrow> row_object" where
  "literal entries = \<lparr>own_props = entries, proto_props = object_prototype\<rparr>"

text \<open>
  An object with type declarations as values inside a template literal: the conversion
  to a string calls the object's \<^verbatim>\<open>toString\<close>. The inherited one yields
  \<^verbatim>\<open>[object Object]\<close>; an own entry named \<^verbatim>\<open>toString\<close> holds a string, which cannot be
  called, and the inherited \<^verbatim>\<open>valueOf\<close> yields the object itself, so the conversion throws.
\<close>

definition template_of_object :: "coldefs \<Rightarrow> string io" where
  "template_of_object ob =
     (if ''toString'' \<in> set (Object_keys ob)
      then throw (TypeError ''Cannot convert object to primitive value'')
      else ret ''[object Object]'')"

text \<open>\<^verbatim>\<open>result[0]\<close> on the rows of a result.\<close>

definition index0 :: "jsval \<Rightarrow> jsval" where
  "index0 v = (case v of JArray (x # xs) \<Rightarrow> x | _ \<Rightarrow> JUndefined)"

text \<open>\<^verbatim>\<open>xs.map((x, i) => f(x, i))\<close>.\<close>

definition map_idx :: "('a \<Rightarrow> nat \<Rightarrow> 'b) \<Rightarrow> 'a list \<Rightarrow> 'b list" where
  "map_idx f xs = map (\<lambda>(x, i). f x i) (zip xs [0..<length xs])"

text \<open>\<^verbatim>\<open>xs.join(sep)\<close> on a list of strings.\<close>

fun join :: "string \<Rightarrow> string list \<Rightarrow> string" where
  "join sep [] = []"
| "join sep [x] = x"
| "join sep (x # y # ys) = x @ sep @ join sep (y # ys)"

text \<open>Decimal rendering of a number inside a template literal.\<close>

definition digit_char :: "nat \<Rightarrow> char" where
  "digit_char d =
     (if d = 0 then CHR ''0'' else if d = 1 then CHR ''1'' else if d = 2 then CHR ''2''
      else if d = 3 then CHR ''3'' else if d = 4 then CHR ''4'' else if d = 5 then CHR ''5''
      else if d = 6 then CHR ''6'' else if d = 7 then CHR ''7'' else if d = 8 then CHR ''8''
      else CHR ''9'')"

fun show_nat :: "nat \<Rightarrow> string" where
  "show_nat n = (if n < 10 then [digit_char n] else show_nat (n div 10) @ [digit_char (n mod 10)])"

declare show_nat.simps [simp del]

text \<open>\<^verbatim>\<open>/^[a-zA-Z0-9_]+$/.test(name)\<close>: a non-empty string of word characters.\<close>

definition is_word_char :: "char \<Rightarrow> bool" where
  "is_word_char c =
     (let n = (of_char c :: nat)
      in (97 \<le> n \<and> n \<le> 122) \<or> (65 \<le> n \<and> n \<le> 90) \<or> (48 \<le> n \<and> n \<le> 57) \<or> n = 95)"

definition regex_test :: "string \<Rightarrow> bool" where
  "regex_test name = (name \<noteq> [] \<and> list_all is_word_char name)"

definition apos :: string where
  "apos = [CHR 0x27]"

definition dquote :: string where
  "dquote = [CHR 0x22]"

section \<open>The query wrapper and the statement builders\<close>

text \<open>
  Each function below follows the function of the same name in \<^verbatim>\<open>src/index.js\<close>. Two names
  are taken by HOL: \<^verbatim>\<open>insert\<close> is \<open>insert_row\<close> and \<^verbatim>\<open>drop\<close> is \<open>drop_object\<close> here, and the
  \<^verbatim>\<open>drop\<close> field of a change set is \<open>drop_cols\<close>. Arguments have the types the functions are
  written for: table and column names are strings, row and filter arguments are objects,
  type declarations are strings. An omitted optional argument is \<open>None\<close>. The function
  \<^verbatim>\<open>copy\<close> is not exported and is left out.

  In \<open>query\<close>, \<^verbatim>\<open>pool.connect()\<close> is awaited before the \<^verbatim>\<open>try\<close> block, and
  \<^verbatim>\<open>client.release()\<close> is the \<^verbatim>\<open>finally\<close> block; \<open>client_query\<close> yields \<^verbatim>\<open>res.rows\<close>.
\<close>

definition query :: "pool \<Rightarrow> string \<Rightarrow> jsval list option \<Rightarrow> jsval io" where
  "query p text params_opt =
     (let params = (case params_opt of None \<Rightarrow> [] | Some ps \<Rightarrow> ps)
      in bind (pool_connect p) (\<lambda>client.
           try_finally
             (bind (client_query p text params) (\<lambda>res. ret res))
             client_release))"

definition insert_row :: "pool \<Rightarrow> string \<Rightarrow> obj \<Rightarrow> jsval io" where
  "insert_row p table data =
     (let (keys, values) =
            foldl (\<lambda>(ks, vs) (key, value). (ks @ [key], vs @ [value])) ([], [])
              (Object_entries data);
          placeholders = join '', '' (map_idx (\<lambda>_ i. ''$'' @ show_nat (i + 1)) keys);
          queryText = ''INSERT INTO '' @ table @ '' ('' @ join '', '' keys @ '') VALUES (''
                        @ placeholders @ '') RETURNING *;''
      in bind (query p queryText (Some values)) (\<lambda>result. ret (index0 result)))"

definition select :: "pool \<Rightarrow> string \<Rightarrow> obj option \<Rightarrow> jsval io" where
  "select p table where_opt =
     (let where = (case where_opt of None \<Rightarrow> [] | Some w \<Rightarrow> w);
          keys = Object_keys where;
          values = Object_values where;
          conditions = join '' AND '' (map_idx (\<lambda>key i. key @ '' = $'' @ show_nat (i + 1)) keys);
          queryText = ''SELECT * FROM '' @ table
                        @ (if conditions \<noteq> [] then '' WHERE '' @ conditions else []) @ '';''
      in bind (query p queryText (Some values)) (\<lambda>result. ret result))"

definition create :: "pool \<Rightarrow> string \<Rightarrow> coldefs \<Rightarrow> jsval io" where
  "create p table columns =
     (let columnDefinitions =
            join '', '' (map (\<lambda>(key, value). key @ '' '' @ value) (Object_entries columns));
          queryText = ''CREATE TABLE IF NOT EXISTS '' @ table @ '' ('' @ columnDefinitions @ '');''
      in query p queryText None)"

text \<open>
  The change set of \<^verbatim>\<open>alterTable\<close>: each of \<^verbatim>\<open>add\<close>, \<^verbatim>\<open>drop\<close>, \<^verbatim>\<open>modify\<close> is absent
  (\<open>None\<close>, falsy) or an object / array (truthy, also when empty).
\<close>

record changes =
  add :: "coldefs option"
  drop_cols :: "string list option"
  modify :: "coldefs option"

definition alterTable :: "pool \<Rightarrow> string \<Rightarrow> changes \<Rightarrow> jsval io" where
  "alterTable p table chg =
     (let alterations0 = [];
          alterations1 =
            (case add chg of
               None \<Rightarrow> alterations0
             | Some a \<Rightarrow>
                 foldl (\<lambda>acc (column, type). acc @ [''ADD COLUMN '' @ column @ '' '' @ type])
                   alterations0 (Object_entries a));
          alterations2 =
            (case drop_cols chg of
               None \<Rightarrow> alterations1
             | Some d \<Rightarrow> foldl (\<lambda>acc column. acc @ [''DROP COLUMN '' @ column]) alterations1 d);
          alterations =
            (case modify chg of
               None \<Rightarrow> alterations2
             | Some m \<Rightarrow>
                 foldl (\<lambda>acc (column, newType).
                          acc @ [''ALTER COLUMN '' @ column @ '' TYPE '' @ newType])
                   alterations2 (Object_entries m))
      in if length alterations = 0 then throw (Error ''No valid alterations provided.'')
         else query p (''ALTER TABLE '' @ table @ '' '' @ join '', '' alterations @ '';'') None)"

definition createDB :: "pool \<Rightarrow> string \<Rightarrow> jsval io" where
  "createDB p database =
     (if \<not> regex_test database then throw (Error ''Invalid database name'')
      else query p (''CREATE DATABASE '' @ database) None)"

definition drop_object :: "pool \<Rightarrow> string \<Rightarrow> string \<Rightarrow> jsval io" where
  "drop_object p type name =
     (if \<not> regex_test name
      then throw (Error
        ''Invalid name provided. Only alphanumeric characters and underscores are allowed.'')
      else if type = ''table'' then query p (''DROP TABLE IF EXISTS '' @ name) None
      else if type = ''database'' then query p (''DROP DATABASE IF EXISTS '' @ name) None
      else if type = ''column''
      then throw (Error
        ''Columns cannot be dropped using this function, use the alterTable function to drop columns.'')
      else throw (Error
        (''Invalid type ('' @ type @ '') provided. Use '' @ dquote @ ''table'' @ dquote
           @ '' or '' @ dquote @ ''database'' @ dquote @ ''.'')))"

definition update :: "pool \<Rightarrow> string \<Rightarrow> obj \<Rightarrow> obj \<Rightarrow> jsval io" where
  "update p table data where =
     (let setString =
            join '', '' (map_idx (\<lambda>key i. key @ '' = $'' @ show_nat (i + 1)) (Object_keys data));
          whereString =
            join '' AND ''
              (map_idx (\<lambda>key i. key @ '' = $'' @ show_nat (i + 1 + length (Object_keys data)))
                 (Object_keys where));
          values = Object_values data @ Object_values where;
          queryText = ''UPDATE '' @ table @ '' SET '' @ setString @ '' WHERE '' @ whereString @ '';''
      in bind (query p queryText (Some values)) (\<lambda>_. ret JUndefined))"

definition insertBulk :: "pool \<Rightarrow> string \<Rightarrow> row_object list \<Rightarrow> jsval io" where
  "insertBulk p table dataArray =
     (case dataArray of
        [] \<Rightarrow> throw (Error ''No data provided for bulk insert.'')
      | first # _ \<Rightarrow>
          (let keys = Object_keys (own_props first);
               values = map (\<lambda>obj. map (\<lambda>k. get_prop obj k) keys) dataArray;
               placeholders =
                 join '', ''
                   (map_idx
                      (\<lambda>row i. ''('' @ join '', ''
                                  (map_idx (\<lambda>_ j. ''$'' @ show_nat (i * length keys + j + 1)) row)
                                @ '')'')
                      values);
               queryText = ''INSERT INTO '' @ table @ '' ('' @ join '', '' keys @ '') VALUES ''
                             @ placeholders @ '' RETURNING *;''
           in query p queryText (Some (concat values))))"

section \<open>The exported operations\<close>

definition updateTable :: "pool \<Rightarrow> string \<Rightarrow> obj \<Rightarrow> obj \<Rightarrow> jsval io" where
  "updateTable p table data where =
     try_catch (update p table data where)
       (\<lambda>error. bind (console_error ''Database update error:'' error)
          (\<lambda>_. throw (Error ''Failed to update the table.'')))"

definition createTable :: "pool \<Rightarrow> string \<Rightarrow> coldefs \<Rightarrow> jsval io" where
  "createTable p table columns =
     try_catch (create p table columns)
       (\<lambda>error. bind (console_error ''Database query error:'' error)
          (\<lambda>_. throw (Error ''Failed to execute database query.'')))"

text \<open>The argument of \<^verbatim>\<open>insertIntoTable\<close>: one row object, or an array of row objects.\<close>

datatype insert_data = Row obj | Rows "row_object list"

definition insertIntoTable :: "pool \<Rightarrow> string \<Rightarrow> insert_data \<Rightarrow> jsval io" where
  "insertIntoTable p table data =
     try_catch
       (case data of
          Rows dataArray \<Rightarrow> insertBulk p table dataArray
        | Row d \<Rightarrow> insert_row p table d)
       (\<lambda>error. bind (console_error (''Error inserting into '' @ apos @ table @ apos @ '':'') error)
          (\<lambda>_. throw (Error (''Failed to insert into '' @ apos @ table @ apos @ ''.''))))"

definition selectFromTable :: "pool \<Rightarrow> string \<Rightarrow> obj option \<Rightarrow> jsval io" where
  "selectFromTable p table where_opt =
     (let where = (case where_opt of None \<Rightarrow> [] | Some w \<Rightarrow> w)
      in try_catch (select p table (Some where))
           (\<lambda>error. bind (console_error ''Database query error:'' error)
              (\<lambda>_. throw (Error ''Failed to execute database query.''))))"

definition dropTable :: "pool \<Rightarrow> string \<Rightarrow> jsval io" where
  "dropTable p name =
     try_catch (drop_object p ''table'' name)
       (\<lambda>error. bind (console_error ''Database query error:'' error)
          (\<lambda>_. throw (Error ''Failed to execute database query.'')))"

definition dropDatabase :: "pool \<Rightarrow> string \<Rightarrow> jsval io" where
  "dropDatabase p name =
     try_catch (drop_object p ''database'' name)
       (\<lambda>error. bind (console_error ''Database query error:'' error)
          (\<lambda>_. throw (Error ''Failed to execute database query.'')))"

text \<open>The column argument of \<^verbatim>\<open>dropColumn\<close>: a plain string, or an array of strings.\<close>

datatype column_arg = Single string | Many "string list"

definition dropColumn :: "pool \<Rightarrow> string \<Rightarrow> column_arg \<Rightarrow> jsval io" where
  "dropColumn p table column =
     (let columns = (case column of Many cs \<Rightarrow> cs | Single c \<Rightarrow> [c])
      in alterTable p table \<lparr>add = None, drop_cols = Some columns, modify = None\<rparr>)"

definition createDatabase :: "pool \<Rightarrow> string \<Rightarrow> jsval io" where
  "createDatabase p name =
     try_catch (createDB p name)
       (\<lambda>error. bind (console_error ''Database query error:'' error)
          (\<lambda>_. throw (Error ''Failed to execute database query.'')))"

definition modifyColumns :: "pool \<Rightarrow> string \<Rightarrow> coldefs \<Rightarrow> jsval io" where
  "modifyColumns p table columns =
     try_catch (alterTable p table \<lparr>add = None, drop_cols = None, modify = Some columns\<rparr>)
       (\<lambda>error. bind (console_error ''Database query error:'' error)
          (\<lambda>_. throw (Error ''Failed to execute database query.'')))"

text \<open>
  In the \<^verbatim>\<open>catch\<close> block of \<^verbatim>\<open>addColumns\<close> the object \<^verbatim>\<open>columns\<close> is interpolated into both
  messages; each interpolation converts it to a string and can throw, before anything is
  logged.
\<close>

definition addColumns :: "pool \<Rightarrow> string \<Rightarrow> coldefs \<Rightarrow> jsval io" where
  "addColumns p table columns =
     try_catch (alterTable p table \<lparr>add = Some columns, drop_cols = None, modify = None\<rparr>)
       (\<lambda>error.
          bind (template_of_object columns) (\<lambda>cols.
          bind (console_error
                  (''Failed to add '' @ apos @ cols @ apos @ '' to '' @ apos @ table @ apos @ '':'')
                  error) (\<lambda>_.
          bind (template_of_object columns) (\<lambda>cols.
          throw (Error
            (''Failed to add '' @ apos @ cols @ apos @ '' to '' @ apos @ table @ apos @ ''.''))))))"

section \<open>Notions used to state the properties\<close>

text \<open>The statements a computation sent to the client, in order.\<close>

fun statements :: "event list \<Rightarrow> (string \<times> jsval list) list" where
  "statements [] = []"
| "statements (Execute text params # evs) = (text, params) # statements evs"
| "statements (ev # evs) = statements evs"

text \<open>
  The positional placeholders of an SQL text, in order of occurrence: every \<^verbatim>\<open>$\<close> that is
  followed by at least one decimal digit, read with the longest run of digits after it.
\<close>

definition is_digit :: "char \<Rightarrow> bool" where
  "is_digit c = (48 \<le> (of_char c :: nat) \<and> (of_char c :: nat) \<le> 57)"

definition digit_val :: "char \<Rightarrow> nat" where
  "digit_val c = of_char c - 48"

definition read_nat :: "string \<Rightarrow> nat" where
  "read_nat ds = foldl (\<lambda>acc c. 10 * acc + digit_val c) 0 ds"

fun placeholders :: "string \<Rightarrow> nat list" where
  "placeholders [] = []"
| "placeholders (c # cs) =
     (if c = CHR ''$'' \<and> takeWhile is_digit cs \<noteq> []
      then read_nat (takeWhile is_digit cs) # placeholders cs
      else placeholders cs)"

text \<open>
  A computation is well numbered when it sent exactly one statement and the placeholders
  of its text are \<open>1, ..., n\<close> in order, \<open>n\<close> being the number of bound values.
\<close>

definition well_numbered :: "event list \<Rightarrow> bool" where
  "well_numbered evs =
     (case statements evs of
        [(text, params)] \<Rightarrow> placeholders text = [1..<Suc (length params)]
      | _ \<Rightarrow> False)"

text \<open>Two concrete environments: a database that answers every statement with one row,
  and a pool that cannot hand out a connection.\<close>

definition one_row_pool :: pool where
  "one_row_pool =
     \<lparr>connect_result = None,
      run_statement = (\<lambda>text params. Inr [JObject [(''id'', JNum 7)]])\<rparr>"

definition refusing_pool :: pool where
  "refusing_pool =
     \<lparr>connect_result = Some (ClientError ''connection refused''),
      run_statement = (\<lambda>text params. Inr [])\<rparr>"

text \<open>A database that rejects every statement.\<close>

definition rejecting_pool :: pool where
  "rejecting_pool =
     \<lparr>connect_result = None,
      run_statement = (\<lambda>text params. Inl (ClientError ''syntax error''))\<rparr>"

section \<open>Basic facts about the effect model and the library functions\<close>

lemma query_eval:
  "query p text po =
     (case connect_result p of
        Some e \<Rightarrow> ([], Inl e)
      | None \<Rightarrow>
          ([Acquire, Execute text (case po of None \<Rightarrow> [] | Some ps \<Rightarrow> ps), Release],
           (case run_statement p text (case po of None \<Rightarrow> [] | Some ps \<Rightarrow> ps) of
              Inl e \<Rightarrow> Inl e
            | Inr rows \<Rightarrow> Inr (JArray rows))))"
  by (simp add: query_def bind_def try_finally_def pool_connect_def client_query_def
      client_release_def ret_def split: option.splits sum.splits)

lemma caught_query:
  "try_catch (bind (query p text (Some vals)) (\<lambda>result. ret (f result)))
     (\<lambda>error. bind (console_error label error) (\<lambda>u. throw failure)) =
     (case connect_result p of
        Some e \<Rightarrow> ([ConsoleError label e], Inl failure)
      | None \<Rightarrow>
          (case run_statement p text vals of
             Inl e \<Rightarrow> ([Acquire, Execute text vals, Release, ConsoleError label e], Inl failure)
           | Inr rows \<Rightarrow> ([Acquire, Execute text vals, Release], Inr (f (JArray rows)))))"
  by (simp add: query_eval try_catch_def bind_def console_error_def throw_def ret_def
      split: option.splits sum.splits)

lemma caught_query_id:
  "try_catch (bind (query p text (Some vals)) (\<lambda>result. ret result))
     (\<lambda>error. bind (console_error label error) (\<lambda>u. throw failure)) =
     (case connect_result p of
        Some e \<Rightarrow> ([ConsoleError label e], Inl failure)
      | None \<Rightarrow>
          (case run_statement p text vals of
             Inl e \<Rightarrow> ([Acquire, Execute text vals, Release, ConsoleError label e], Inl failure)
           | Inr rows \<Rightarrow> ([Acquire, Execute text vals, Release], Inr (JArray rows))))"
  using caught_query [of p "text" vals "\<lambda>x. x" "label" failure] by simp

lemma caught_plain_query:
  "try_catch (query p text po)
     (\<lambda>error. bind (console_error label error) (\<lambda>u. throw failure)) =
     (let vals = (case po of None \<Rightarrow> [] | Some ps \<Rightarrow> ps)
      in case connect_result p of
        Some e \<Rightarrow> ([ConsoleError label e], Inl failure)
      | None \<Rightarrow>
          (case run_statement p text vals of
             Inl e \<Rightarrow> ([Acquire, Execute text vals, Release, ConsoleError label e], Inl failure)
           | Inr rows \<Rightarrow> ([Acquire, Execute text vals, Release], Inr (JArray rows))))"
  by (simp add: query_eval try_catch_def bind_def console_error_def throw_def
      split: option.splits sum.splits)

lemma caught_throw:
  "try_catch (throw e) (\<lambda>error. bind (console_error label error) (\<lambda>u. throw failure))
     = ([ConsoleError label e], Inl failure)"
  by (simp add: try_catch_def bind_def console_error_def throw_def)

lemma foldl_push:
  "foldl (\<lambda>(ks, vs) (key, value). (ks @ [key], vs @ [value])) (a, b) xs
     = (a @ map fst xs, b @ map snd xs)"
  by (induction xs arbitrary: a b) (auto simp: case_prod_beta)

lemma map_idx_nth: "map_idx f xs = map (\<lambda>i. f (xs ! i) i) [0..<length xs]"
  unfolding map_idx_def by (rule nth_equalityI) simp_all

lemma map_idx_index_only: "map_idx (\<lambda>x i. g (i + a)) xs = map g [a..<a + length xs]"
proof -
  have "map g [a..<a + length xs] = map g (map (\<lambda>i. i + a) [0..<length xs])"
    by (simp add: map_add_upt add.commute)
  then show ?thesis
    by (simp add: map_idx_nth comp_def)
qed

lemma map_idx_keyed:
  "map_idx (\<lambda>k i. f k (i + a)) xs = map (\<lambda>(k, i). f k i) (zip xs [a..<a + length xs])"
proof -
  have "[a..<a + length xs] = map (\<lambda>i. i + a) [0..<length xs]"
    by (simp add: map_add_upt add.commute)
  then show ?thesis
    by (simp add: map_idx_def zip_map2 case_prod_beta comp_def)
qed

section \<open>Single-row insert\<close>

lemma insert_row_statement:
  "insert_row p table data =
     bind (query p
             (''INSERT INTO '' @ table @ '' ('' @ join '', '' (map fst data)
                @ '') VALUES ('' @ join '', '' (map (\<lambda>i. ''$'' @ show_nat i) [1..<Suc (length data)])
                @ '') RETURNING *;'')
             (Some (map snd data)))
       (\<lambda>result. ret (index0 result))"
proof -
  have ph: "map_idx (\<lambda>x i. ''$'' @ show_nat (i + 1)) (map fst data)
              = map (\<lambda>i. ''$'' @ show_nat i) [1..<Suc (length data)]"
    using map_idx_index_only [of "\<lambda>i. ''$'' @ show_nat i" 1 "map fst data"] by simp
  show ?thesis
    by (simp only: insert_row_def Object_entries_def foldl_push Let_def prod.case ph append_Nil)
qed

text \<open>
  C2. For a single row object with entries \<open>(k1, v1), ..., (kn, vn)\<close>, \<open>insertIntoTable\<close>
  sends exactly the statement \<^verbatim>\<open>INSERT INTO table (k1, ..., kn) VALUES ($1, ..., $n) RETURNING *;\<close>
  with the bound values \<open>[v1, ..., vn]\<close> and returns the first row of the result
  (\<^verbatim>\<open>undefined\<close> when the database returns none); a failure of the pool or of the
  statement is logged and replaced by the operation's own error.
\<close>

theorem insertIntoTable_single_row:
  "insertIntoTable p table (Row data) =
     (let text = ''INSERT INTO '' @ table @ '' ('' @ join '', '' (map fst data)
                   @ '') VALUES ('' @ join '', '' (map (\<lambda>i. ''$'' @ show_nat i) [1..<Suc (length data)])
                   @ '') RETURNING *;'';
          vals = map snd data;
          label = ''Error inserting into '' @ apos @ table @ apos @ '':'';
          failure = Error (''Failed to insert into '' @ apos @ table @ apos @ ''.'')
      in case connect_result p of
           Some e \<Rightarrow> ([ConsoleError label e], Inl failure)
         | None \<Rightarrow>
             (case run_statement p text vals of
                Inl e \<Rightarrow> ([Acquire, Execute text vals, Release, ConsoleError label e], Inl failure)
              | Inr rows \<Rightarrow>
                  ([Acquire, Execute text vals, Release],
                   Inr (case rows of [] \<Rightarrow> JUndefined | r # rs \<Rightarrow> r))))"
proof -
  have first: "index0 (JArray rows) = (case rows of [] \<Rightarrow> JUndefined | r # rs \<Rightarrow> r)" for rows
    by (simp add: index0_def split: list.splits)
  show ?thesis
    unfolding insertIntoTable_def insert_data.case insert_row_statement caught_query Let_def first
    by (rule refl)
qed

text \<open>The example of the specification: \<^verbatim>\<open>insertIntoTable(t, {a: 1, b: 2})\<close>.\<close>

theorem insertIntoTable_single_row_witness:
  "insertIntoTable one_row_pool ''t'' (Row [(''a'', JNum 1), (''b'', JNum 2)])
   = ([Acquire, Execute ''INSERT INTO t (a, b) VALUES ($1, $2) RETURNING *;'' [JNum 1, JNum 2],
       Release], Inr (JObject [(''id'', JNum 7)]))"
  using insertIntoTable_single_row [of one_row_pool "''t''" "[(''a'', JNum 1), (''b'', JNum 2)]"]
  by (simp add: one_row_pool_def show_nat.simps digit_char_def upt_conv_Cons)

section \<open>Select with equality filters\<close>

lemma join_Nil_iff: "x \<noteq> [] \<Longrightarrow> join sep (x # xs) \<noteq> []"
  by (cases xs) simp_all

lemma select_statement:
  "select p table where_opt =
     (let w = (case where_opt of None \<Rightarrow> [] | Some w \<Rightarrow> w)
      in bind (query p
             (''SELECT * FROM '' @ table
                @ (if w = [] then [] else '' WHERE '' @ join '' AND ''
                     (map (\<lambda>(k, i). k @ '' = $'' @ show_nat i) (zip (map fst w) [1..<Suc (length w)])))
                @ '';'')
             (Some (map snd w)))
          (\<lambda>result. ret result))"
proof -
  define w where "w = (case where_opt of None \<Rightarrow> [] | Some w \<Rightarrow> w)"
  define conds where "conds = map (\<lambda>(k, i). k @ '' = $'' @ show_nat i) (zip (map fst w) [1..<Suc (length w)])"
  have idx: "map_idx (\<lambda>key i. key @ '' = $'' @ show_nat (i + 1)) (map fst w) = conds"
    using map_idx_keyed [of "\<lambda>k i. k @ '' = $'' @ show_nat i" 1 "map fst w"]
    by (simp add: conds_def)
  have len: "length conds = length w"
    by (simp add: conds_def del: upt_Suc)
  have "[] \<notin> set conds"
    by (auto simp: conds_def)
  then have nonempty: "(join '' AND '' conds \<noteq> []) = (w \<noteq> [])"
    using len by (cases conds) (auto simp: join_Nil_iff)
  have "select p table where_opt =
          bind (query p (''SELECT * FROM '' @ table
                  @ (if join '' AND '' conds \<noteq> [] then '' WHERE '' @ join '' AND '' conds else [])
                  @ '';'') (Some (map snd w))) (\<lambda>result. ret result)"
    by (simp only: select_def Object_keys_def Object_values_def Let_def idx flip: w_def)
  then show ?thesis
    by (simp only: nonempty Let_def flip: w_def conds_def) (simp cong: if_cong)
qed

text \<open>
  C5. With the filter omitted or empty, \<open>selectFromTable\<close> sends \<^verbatim>\<open>SELECT * FROM table;\<close>
  with no bound values; with a non-empty filter \<open>(c1, v1), ..., (cn, vn)\<close> it sends
  \<^verbatim>\<open>SELECT * FROM table WHERE c1 = $1 AND ... AND cn = $n;\<close> bound to \<open>[v1, ..., vn]\<close>.
  In both cases it returns all rows of the result; a failure is logged and replaced by a
  generic error.
\<close>

theorem selectFromTable_statement:
  "selectFromTable p table where_opt =
     (let w = (case where_opt of None \<Rightarrow> [] | Some w \<Rightarrow> w);
          text = ''SELECT * FROM '' @ table
                   @ (if w = [] then [] else '' WHERE '' @ join '' AND ''
                        (map (\<lambda>(k, i). k @ '' = $'' @ show_nat i)
                           (zip (map fst w) [1..<Suc (length w)])))
                   @ '';'';
          vals = map snd w;
          label = ''Database query error:'';
          failure = Error ''Failed to execute database query.''
      in case connect_result p of
           Some e \<Rightarrow> ([ConsoleError label e], Inl failure)
         | None \<Rightarrow>
             (case run_statement p text vals of
                Inl e \<Rightarrow> ([Acquire, Execute text vals, Release, ConsoleError label e], Inl failure)
              | Inr rows \<Rightarrow> ([Acquire, Execute text vals, Release], Inr (JArray rows))))"
  unfolding selectFromTable_def select_statement Let_def option.case caught_query_id
  by (rule refl)

text \<open>The examples of the specification: no filter, an empty filter, and \<^verbatim>\<open>{a: 1}\<close>.\<close>

theorem selectFromTable_statement_witness:
  "selectFromTable one_row_pool ''t'' None
     = ([Acquire, Execute ''SELECT * FROM t;'' [], Release], Inr (JArray [JObject [(''id'', JNum 7)]]))
   \<and> selectFromTable one_row_pool ''t'' (Some [])
     = ([Acquire, Execute ''SELECT * FROM t;'' [], Release], Inr (JArray [JObject [(''id'', JNum 7)]]))
   \<and> selectFromTable one_row_pool ''t'' (Some [(''a'', JNum 1)])
     = ([Acquire, Execute ''SELECT * FROM t WHERE a = $1;'' [JNum 1], Release],
        Inr (JArray [JObject [(''id'', JNum 7)]]))"
  using selectFromTable_statement [of one_row_pool "''t''" None]
    selectFromTable_statement [of one_row_pool "''t''" "Some []"]
    selectFromTable_statement [of one_row_pool "''t''" "Some [(''a'', JNum 1)]"]
  by (simp add: one_row_pool_def show_nat.simps digit_char_def)

section \<open>Update\<close>

lemma update_statement:
  "update p table data where =
     bind (query p
             (''UPDATE '' @ table @ '' SET ''
                @ join '', '' (map (\<lambda>(k, i). k @ '' = $'' @ show_nat i)
                                (zip (map fst data) [1..<Suc (length data)]))
                @ '' WHERE ''
                @ join '' AND '' (map (\<lambda>(k, i). k @ '' = $'' @ show_nat i)
                                  (zip (map fst where)
                                     [Suc (length data)..<Suc (length data + length where)]))
                @ '';'')
             (Some (map snd data @ map snd where)))
       (\<lambda>result. ret JUndefined)"
proof -
  have set_idx: "map_idx (\<lambda>key i. key @ '' = $'' @ show_nat (i + 1)) (map fst data)
      = map (\<lambda>(k, i). k @ '' = $'' @ show_nat i) (zip (map fst data) [1..<Suc (length data)])"
    using map_idx_keyed [of "\<lambda>k i. k @ '' = $'' @ show_nat i" 1 "map fst data"] by simp
  have "map_idx (\<lambda>key i. key @ '' = $'' @ show_nat (i + (1 + length data))) (map fst where)
      = map (\<lambda>(k, i). k @ '' = $'' @ show_nat i)
          (zip (map fst where) [Suc (length data)..<Suc (length data + length where)])"
    using map_idx_keyed [of "\<lambda>k i. k @ '' = $'' @ show_nat i" "1 + length data" "map fst where"]
    by simp
  then have where_idx:
    "map_idx (\<lambda>key i. key @ '' = $'' @ show_nat (i + 1 + length (map fst data))) (map fst where)
      = map (\<lambda>(k, i). k @ '' = $'' @ show_nat i)
          (zip (map fst where) [Suc (length data)..<Suc (length data + length where)])"
    by (simp add: add.assoc)
  show ?thesis
    by (simp only: update_def Object_keys_def Object_values_def Let_def set_idx where_idx)
qed

text \<open>
  C4. For a SET object with \<open>m\<close> entries and a WHERE object with \<open>w\<close> entries,
  \<open>updateTable\<close> sends \<^verbatim>\<open>UPDATE table SET k1 = $1, ..., km = $m WHERE c1 = $(m+1) AND ... AND cw = $(m+w);\<close>
  with the SET values followed by the WHERE values: the WHERE placeholders continue after
  the SET placeholders. On success it returns \<^verbatim>\<open>undefined\<close>, whatever rows the database
  answered with: no rows and no count reach the caller.
\<close>

theorem updateTable_statement:
  "updateTable p table data where =
     (let m = length data;
          w = length where;
          text = ''UPDATE '' @ table @ '' SET ''
                   @ join '', '' (map (\<lambda>(k, i). k @ '' = $'' @ show_nat i)
                                   (zip (map fst data) [1..<Suc m]))
                   @ '' WHERE ''
                   @ join '' AND '' (map (\<lambda>(k, i). k @ '' = $'' @ show_nat i)
                                     (zip (map fst where) [Suc m..<Suc (m + w)]))
                   @ '';'';
          vals = map snd data @ map snd where;
          label = ''Database update error:'';
          failure = Error ''Failed to update the table.''
      in case connect_result p of
           Some e \<Rightarrow> ([ConsoleError label e], Inl failure)
         | None \<Rightarrow>
             (case run_statement p text vals of
                Inl e \<Rightarrow> ([Acquire, Execute text vals, Release, ConsoleError label e], Inl failure)
              | Inr rows \<Rightarrow> ([Acquire, Execute text vals, Release], Inr JUndefined)))"
  unfolding updateTable_def update_statement Let_def
    caught_query [of _ _ _ "\<lambda>result. JUndefined"]
  by (rule refl)

text \<open>The example of the specification: \<^verbatim>\<open>updateTable(t, {a: 5}, {id: 1})\<close>.\<close>

theorem updateTable_statement_witness:
  "updateTable one_row_pool ''t'' [(''a'', JNum 5)] [(''id'', JNum 1)]
     = ([Acquire, Execute ''UPDATE t SET a = $1 WHERE id = $2;'' [JNum 5, JNum 1], Release],
        Inr JUndefined)"
  using updateTable_statement [of one_row_pool "''t''" "[(''a'', JNum 5)]" "[(''id'', JNum 1)]"]
  by (simp add: one_row_pool_def show_nat.simps digit_char_def)

section \<open>Bulk insert\<close>

lemma insertBulk_statement:
  "insertBulk p table (first # rest) =
     (let keys = map fst (own_props first);
          k = length keys;
          n = Suc (length rest)
      in query p
           (''INSERT INTO '' @ table @ '' ('' @ join '', '' keys @ '') VALUES ''
              @ join '', ''
                  (map (\<lambda>i. ''('' @ join '', ''
                                 (map (\<lambda>j. ''$'' @ show_nat (i * k + j + 1)) [0..<k]) @ '')'')
                     [0..<n])
              @ '' RETURNING *;'')
           (Some (concat (map (\<lambda>row. map (get_prop row) keys) (first # rest)))))"
proof -
  define keys where "keys = map fst (own_props first)"
  define vals where "vals = map (\<lambda>obj. map (\<lambda>k. get_prop obj k) keys) (first # rest)"
  have inner: "map_idx (\<lambda>x j. ''$'' @ show_nat (i * length keys + j + 1)) row
                 = map (\<lambda>j. ''$'' @ show_nat (i * length keys + j + 1)) [0..<length row]" for i and row :: "jsval list"
    by (simp add: map_idx_nth)
  have len: "length (vals ! i) = length keys" if "i < Suc (length rest)" for i
  proof -
    have "vals ! i = map (\<lambda>k. get_prop ((first # rest) ! i) k) keys"
      unfolding vals_def using that by (intro nth_map) simp
    then show ?thesis by simp
  qed
  have lv: "length vals = Suc (length rest)"
    by (simp add: vals_def)
  have rows: "map_idx
                (\<lambda>row i. ''('' @ join '', ''
                     (map_idx (\<lambda>x j. ''$'' @ show_nat (i * length keys + j + 1)) row) @ '')'')
                vals
              = map (\<lambda>i. ''('' @ join '', ''
                        (map (\<lambda>j. ''$'' @ show_nat (i * length keys + j + 1)) [0..<length keys]) @ '')'')
                  [0..<Suc (length rest)]"
    unfolding map_idx_nth [of _ vals] inner
    by (rule map_cong) (simp_all add: len lv del: upt_Suc)
  show ?thesis
    unfolding insertBulk_def list.case Object_keys_def Let_def
    by (simp only: rows
        flip: keys_def vals_def)
qed

text \<open>Reading a property a row owns yields the row's value for it.\<close>

lemma get_prop_own:
  "distinct (map fst (own_props row)) \<Longrightarrow> (k, v) \<in> set (own_props row) \<Longrightarrow> get_prop row k = v"
  by (simp add: get_prop_def)

lemma get_prop_own_keys:
  assumes "distinct (map fst (own_props row))"
  shows "map (get_prop row) (map fst (own_props row)) = map snd (own_props row)"
proof -
  have "get_prop row (fst kv) = snd kv" if "kv \<in> set (own_props row)" for kv
    using get_prop_own [OF assms, of "fst kv" "snd kv"] that by simp
  then show ?thesis by simp
qed

text \<open>Reading a property a row lacks yields what its prototype chain holds.\<close>

lemma get_prop_inherited:
  "k \<notin> fst ` set (own_props row) \<Longrightarrow>
   get_prop row k = (case map_of (proto_props row) k of Some v \<Rightarrow> v | None \<Rightarrow> JUndefined)"
  by (simp add: get_prop_def map_of_eq_None_iff [THEN iffD2])

lemma length_concat_rows:
  "length (concat (map (\<lambda>row. map (f row) keys) rows)) = length rows * length keys"
  by (induction rows) simp_all

lemma nth_concat_uniform:
  "\<forall>r\<in>set rows. length r = k \<Longrightarrow> i < length rows \<Longrightarrow> j < k
     \<Longrightarrow> concat rows ! (i * k + j) = rows ! i ! j"
proof (induction rows arbitrary: i)
  case Nil
  then show ?case by simp
next
  case (Cons r rows)
  show ?case
  proof (cases i)
    case 0
    then show ?thesis using Cons.prems by (simp add: nth_append)
  next
    case (Suc i')
    then have "concat rows ! (i' * k + j) = rows ! i' ! j"
      using Cons by simp
    moreover have "Suc i' * k + j = length r + (i' * k + j)"
      using Cons.prems by simp
    ultimately show ?thesis
      using Suc by (simp only: concat.simps nth_append_length_plus nth_Cons_Suc)
  qed
qed

text \<open>
  C3. For a non-empty array of row objects, \<open>insertIntoTable\<close> sends exactly one statement
  \<^verbatim>\<open>INSERT INTO table (keys of the first row) VALUES (...), (...) RETURNING *;\<close> with one
  tuple per row; with \<open>k\<close> keys in the first row, the placeholder of row \<open>i\<close> and column
  \<open>j\<close> (both from 0) is \<open>$(i * k + j + 1)\<close>, and the operation returns all rows of the
  result. There are \<open>n * k\<close> bound values, and the value at position \<open>i * k + j\<close>, the one
  placeholder \<open>$(i * k + j + 1)\<close> stands for, is what reading the \<open>j\<close>-th key of the first
  row from row \<open>i\<close> yields: the row's own value for that key when it has one. So for rows
  that all have the keys of the first row, the bound values are the rows' values, row
  after row.
\<close>

theorem insertIntoTable_bulk:
  "(let keys = map fst (own_props first);
        k = length keys;
        n = Suc (length rest);
        text = ''INSERT INTO '' @ table @ '' ('' @ join '', '' keys @ '') VALUES ''
                 @ join '', ''
                     (map (\<lambda>i. ''('' @ join '', ''
                                    (map (\<lambda>j. ''$'' @ show_nat (i * k + j + 1)) [0..<k]) @ '')'')
                        [0..<n])
                 @ '' RETURNING *;'';
        vals = concat (map (\<lambda>row. map (get_prop row) keys) (first # rest));
        label = ''Error inserting into '' @ apos @ table @ apos @ '':'';
        failure = Error (''Failed to insert into '' @ apos @ table @ apos @ ''.'')
    in insertIntoTable p table (Rows (first # rest)) =
         (case connect_result p of
            Some e \<Rightarrow> ([ConsoleError label e], Inl failure)
          | None \<Rightarrow>
              (case run_statement p text vals of
                 Inl e \<Rightarrow> ([Acquire, Execute text vals, Release, ConsoleError label e], Inl failure)
               | Inr rows \<Rightarrow> ([Acquire, Execute text vals, Release], Inr (JArray rows))))
     \<and> length vals = n * k
     \<and> (\<forall>i<n. \<forall>j<k. vals ! (i * k + j) = get_prop ((first # rest) ! i) (keys ! j))
     \<and> (\<forall>row\<in>set (first # rest). distinct (map fst (own_props row)) \<longrightarrow>
           (\<forall>kv\<in>set (own_props row). get_prop row (fst kv) = snd kv))
     \<and> (distinct keys \<and> (\<forall>row\<in>set (first # rest). map fst (own_props row) = keys) \<longrightarrow>
           vals = concat (map (\<lambda>row. map snd (own_props row)) (first # rest))))"
  unfolding Let_def
proof (intro conjI, goal_cases)
  case 1
  show ?case
    unfolding insertIntoTable_def insert_data.case insertBulk_statement Let_def caught_plain_query
      option.case
    by (rule refl)
next
  case 2
  show ?case
    by (simp only: length_concat_rows length_Cons)
next
  case 3
  define keys where "keys = map fst (own_props first)"
  define rows where "rows = first # rest"
  have "concat (map (\<lambda>row. map (get_prop row) keys) rows) ! (i * length keys + j)
          = get_prop (rows ! i) (keys ! j)"
    if "i < length rows" "j < length keys" for i j
  proof -
    have "concat (map (\<lambda>row. map (get_prop row) keys) rows) ! (i * length keys + j)
            = map (\<lambda>row. map (get_prop row) keys) rows ! i ! j"
      using that by (intro nth_concat_uniform) simp_all
    then show ?thesis using that by simp
  qed
  then show ?case
    by (simp add: keys_def rows_def)
next
  case 4
  show ?case
    using get_prop_own by (metis prod.collapse)
next
  case 5
  show ?case
  proof
    assume uniform: "distinct (map fst (own_props first))
      \<and> (\<forall>row\<in>set (first # rest). map fst (own_props row) = map fst (own_props first))"
    have "map (get_prop row) (map fst (own_props first)) = map snd (own_props row)"
      if "row \<in> set (first # rest)" for row
      using uniform that get_prop_own_keys [of row] by metis
    then have "map (\<lambda>row. map (get_prop row) (map fst (own_props first))) (first # rest)
                 = map (\<lambda>row. map snd (own_props row)) (first # rest)"
      by (intro map_cong) simp_all
    then show "concat (map (\<lambda>row. map (get_prop row) (map fst (own_props first))) (first # rest))
                 = concat (map (\<lambda>row. map snd (own_props row)) (first # rest))"
      by (rule arg_cong)
  qed
qed

text \<open>
  Three inputs: the two-row, two-column case \<^verbatim>\<open>[{a: 1, b: 2}, {a: 3, b: 4}]\<close>; a second row
  that lacks a key, \<^verbatim>\<open>[{a: 1, b: 2}, {a: 3}]\<close>; and a second row that lacks a key its
  prototype has, \<^verbatim>\<open>[{constructor: 1}, {}]\<close>.
\<close>

theorem insertIntoTable_bulk_witness:
  "insertIntoTable one_row_pool ''t''
     (Rows [literal [(''a'', JNum 1), (''b'', JNum 2)], literal [(''a'', JNum 3), (''b'', JNum 4)]])
     = ([Acquire,
         Execute ''INSERT INTO t (a, b) VALUES ($1, $2), ($3, $4) RETURNING *;''
           [JNum 1, JNum 2, JNum 3, JNum 4],
         Release], Inr (JArray [JObject [(''id'', JNum 7)]]))
   \<and> insertIntoTable one_row_pool ''t''
     (Rows [literal [(''a'', JNum 1), (''b'', JNum 2)], literal [(''a'', JNum 3)]])
     = ([Acquire,
         Execute ''INSERT INTO t (a, b) VALUES ($1, $2), ($3, $4) RETURNING *;''
           [JNum 1, JNum 2, JNum 3, JUndefined],
         Release], Inr (JArray [JObject [(''id'', JNum 7)]]))
   \<and> insertIntoTable one_row_pool ''t'' (Rows [literal [(''constructor'', JNum 1)], literal []])
     = ([Acquire,
         Execute ''INSERT INTO t (constructor) VALUES ($1), ($2) RETURNING *;''
           [JNum 1, JFunction ''Object''],
         Release], Inr (JArray [JObject [(''id'', JNum 7)]]))"
  using
    insertIntoTable_bulk [of "literal [(''a'', JNum 1), (''b'', JNum 2)]"
      "[literal [(''a'', JNum 3), (''b'', JNum 4)]]" "''t''" one_row_pool]
    insertIntoTable_bulk [of "literal [(''a'', JNum 1), (''b'', JNum 2)]"
      "[literal [(''a'', JNum 3)]]" "''t''" one_row_pool]
    insertIntoTable_bulk [of "literal [(''constructor'', JNum 1)]" "[literal []]" "''t''"
      one_row_pool]
  by (simp add: one_row_pool_def show_nat.simps digit_char_def get_prop_def literal_def
      object_prototype_def Let_def)

section \<open>Validated names: create database, drop table, drop database\<close>

text \<open>The character class of the name check, spelled out.\<close>

lemma is_word_char_iff:
  "is_word_char c \<longleftrightarrow>
     c \<in> set ''abcdefghijklmnopqrstuvwxyzABCDEFGHIJKLMNOPQRSTUVWXYZ0123456789_''"
  by (cases c) (simp add: is_word_char_def Let_def; blast)

lemma drop_object_table:
  "drop_object p ''table'' name =
     (if \<not> regex_test name
      then throw (Error
        ''Invalid name provided. Only alphanumeric characters and underscores are allowed.'')
      else query p (''DROP TABLE IF EXISTS '' @ name) None)"
  by (simp add: drop_object_def)

lemma drop_object_database:
  "drop_object p ''database'' name =
     (if \<not> regex_test name
      then throw (Error
        ''Invalid name provided. Only alphanumeric characters and underscores are allowed.'')
      else query p (''DROP DATABASE IF EXISTS '' @ name) None)"
  by (simp add: drop_object_def)

lemma regex_test_iff:
  "regex_test name \<longleftrightarrow>
     name \<noteq> []
     \<and> set name \<subseteq> set ''abcdefghijklmnopqrstuvwxyzABCDEFGHIJKLMNOPQRSTUVWXYZ0123456789_''"
  unfolding regex_test_def list_all_iff using is_word_char_iff by blast

text \<open>
  C6. For a name that passes the check \<^verbatim>\<open>^[a-zA-Z0-9_]+$\<close>, the builders behind
  \<open>createDatabase\<close>, \<open>dropTable\<close> and \<open>dropDatabase\<close> hand \<^verbatim>\<open>CREATE DATABASE name\<close>,
  \<^verbatim>\<open>DROP TABLE IF EXISTS name\<close> and \<^verbatim>\<open>DROP DATABASE IF EXISTS name\<close> to the query wrapper.
  For any other name each builder throws its validation error with no event at all; the
  exported operation logs that error and re-throws its generic error, and nothing is
  acquired from the pool or sent to the client.
\<close>

theorem validated_names:
  "(let label = ''Database query error:'';
        failure = Error ''Failed to execute database query.'';
        invalid = ''Invalid name provided. Only alphanumeric characters and underscores are allowed.'';
        sent = (\<lambda>text.
          case connect_result p of
            Some e \<Rightarrow> ([], Inl e)
          | None \<Rightarrow>
              ([Acquire, Execute text [], Release],
               (case run_statement p text [] of
                  Inl e \<Rightarrow> Inl e
                | Inr rows \<Rightarrow> Inr (JArray rows))));
        issued = (\<lambda>text.
          case connect_result p of
            Some e \<Rightarrow> ([ConsoleError label e], Inl failure)
          | None \<Rightarrow>
              (case run_statement p text [] of
                 Inl e \<Rightarrow> ([Acquire, Execute text [], Release, ConsoleError label e], Inl failure)
               | Inr rows \<Rightarrow> ([Acquire, Execute text [], Release], Inr (JArray rows))));
        rejected = (\<lambda>msg. ([ConsoleError label (Error msg)], Inl failure))
    in createDB p name =
         (if regex_test name then sent (''CREATE DATABASE '' @ name)
          else ([], Inl (Error ''Invalid database name'')))
     \<and> drop_object p ''table'' name =
         (if regex_test name then sent (''DROP TABLE IF EXISTS '' @ name)
          else ([], Inl (Error invalid)))
     \<and> drop_object p ''database'' name =
         (if regex_test name then sent (''DROP DATABASE IF EXISTS '' @ name)
          else ([], Inl (Error invalid)))
     \<and> createDatabase p name =
         (if regex_test name then issued (''CREATE DATABASE '' @ name)
          else rejected ''Invalid database name'')
     \<and> dropTable p name =
         (if regex_test name then issued (''DROP TABLE IF EXISTS '' @ name)
          else rejected invalid)
     \<and> dropDatabase p name =
         (if regex_test name then issued (''DROP DATABASE IF EXISTS '' @ name)
          else rejected invalid))"
proof (cases "regex_test name")
  case True
  then show ?thesis
    unfolding createDatabase_def dropTable_def dropDatabase_def createDB_def
      drop_object_table drop_object_database
    by (simp only: not_True_eq_False if_False if_True caught_plain_query Let_def option.case
        simp_thms)
      (simp only: query_eval option.case simp_thms)
next
  case False
  then show ?thesis
    unfolding createDatabase_def dropTable_def dropDatabase_def createDB_def
      drop_object_table drop_object_database
    by (simp only: not_False_eq_True if_False if_True caught_throw Let_def simp_thms)
      (simp only: throw_def simp_thms)
qed

text \<open>A valid name, a name with an injected statement, and the empty name.\<close>

theorem validated_names_witness:
  "createDatabase one_row_pool ''my_db1''
     = ([Acquire, Execute ''CREATE DATABASE my_db1'' [], Release],
        Inr (JArray [JObject [(''id'', JNum 7)]]))
   \<and> dropTable one_row_pool ''users; DROP TABLE x''
     = ([ConsoleError ''Database query error:''
          (Error ''Invalid name provided. Only alphanumeric characters and underscores are allowed.'')],
        Inl (Error ''Failed to execute database query.''))
   \<and> dropDatabase one_row_pool ''''
     = ([ConsoleError ''Database query error:''
          (Error ''Invalid name provided. Only alphanumeric characters and underscores are allowed.'')],
        Inl (Error ''Failed to execute database query.''))"
  using validated_names [of one_row_pool "''my_db1''"]
    validated_names [of one_row_pool "''users; DROP TABLE x''"]
    validated_names [of one_row_pool "''''"]
  by (simp add: one_row_pool_def regex_test_def is_word_char_def Let_def)

section \<open>Alter table\<close>

lemma alterTable_drop_one:
  "alterTable p table \<lparr>add = None, drop_cols = Some [c], modify = None\<rparr>
     = query p (''ALTER TABLE '' @ table @ '' DROP COLUMN '' @ c @ '';'') None"
  by (simp add: alterTable_def)

lemma alterTable_empty:
  assumes "add chg \<in> {None, Some []}" "drop_cols chg \<in> {None, Some []}"
    "modify chg \<in> {None, Some []}"
  shows "alterTable p table chg = ([], Inl (Error ''No valid alterations provided.''))"
  using assms by (auto simp: alterTable_def Object_entries_def throw_def)

text \<open>
  C7. An alter-table request whose change set is empty (each of add, drop and modify
  absent or empty) fails with the error \<^verbatim>\<open>No valid alterations provided.\<close> and causes no
  event at all; so \<open>addColumns\<close> and \<open>modifyColumns\<close> with an empty object and
  \<open>dropColumn\<close> with an empty array fail without a statement being sent.
\<close>

theorem empty_alteration_rejected:
  assumes "add chg \<in> {None, Some []}" "drop_cols chg \<in> {None, Some []}"
    "modify chg \<in> {None, Some []}"
  shows "alterTable p table chg = ([], Inl (Error ''No valid alterations provided.''))
    \<and> addColumns p table [] =
        ([ConsoleError (''Failed to add '' @ apos @ ''[object Object]'' @ apos @ '' to ''
                          @ apos @ table @ apos @ '':'')
            (Error ''No valid alterations provided.'')],
         Inl (Error (''Failed to add '' @ apos @ ''[object Object]'' @ apos @ '' to ''
                       @ apos @ table @ apos @ ''.'')))
    \<and> modifyColumns p table [] =
        ([ConsoleError ''Database query error:'' (Error ''No valid alterations provided.'')],
         Inl (Error ''Failed to execute database query.''))
    \<and> dropColumn p table (Many []) = ([], Inl (Error ''No valid alterations provided.''))"
proof -
  have thrown: "([], Inl (Error ''No valid alterations provided.''))
                  = (throw (Error ''No valid alterations provided.'') :: jsval io)"
    by (simp add: throw_def)
  have "alterTable p table chg = ([], Inl (Error ''No valid alterations provided.''))"
    using assms by (rule alterTable_empty)
  moreover have "addColumns p table [] =
        ([ConsoleError (''Failed to add '' @ apos @ ''[object Object]'' @ apos @ '' to ''
                          @ apos @ table @ apos @ '':'')
            (Error ''No valid alterations provided.'')],
         Inl (Error (''Failed to add '' @ apos @ ''[object Object]'' @ apos @ '' to ''
                       @ apos @ table @ apos @ ''.'')))"
    by (simp add: addColumns_def template_of_object_def Object_keys_def try_catch_def bind_def
        console_error_def throw_def ret_def
        alterTable_empty [of "\<lparr>add = Some [], drop_cols = None, modify = None\<rparr>", simplified])
  moreover have "modifyColumns p table [] =
        ([ConsoleError ''Database query error:'' (Error ''No valid alterations provided.'')],
         Inl (Error ''Failed to execute database query.''))"
    unfolding modifyColumns_def
    by (simp only: alterTable_empty [of "\<lparr>add = None, drop_cols = None, modify = Some []\<rparr>", simplified]
        thrown caught_throw)
  moreover have "dropColumn p table (Many []) = ([], Inl (Error ''No valid alterations provided.''))"
    by (simp add: dropColumn_def alterTable_empty)
  ultimately show ?thesis by simp
qed

theorem empty_alteration_rejected_witness:
  "alterTable one_row_pool ''t'' \<lparr>add = Some [], drop_cols = None, modify = Some []\<rparr>
     = ([], Inl (Error ''No valid alterations provided.''))
   \<and> statements (fst (addColumns one_row_pool ''t'' [])) = []
   \<and> statements (fst (modifyColumns one_row_pool ''t'' [])) = []
   \<and> statements (fst (dropColumn one_row_pool ''t'' (Many []))) = []"
  using empty_alteration_rejected
    [of "\<lparr>add = Some [], drop_cols = None, modify = Some []\<rparr>" one_row_pool "''t''"]
  by simp

text \<open>
  C10. \<open>dropColumn\<close> with a plain string \<open>c\<close> behaves exactly as with the one-element
  array \<open>[c]\<close>: both send \<^verbatim>\<open>ALTER TABLE table DROP COLUMN c;\<close> and yield the same result.
\<close>

theorem dropColumn_single_as_list:
  "dropColumn p table (Single c) = dropColumn p table (Many [c])
   \<and> dropColumn p table (Many [c]) =
       (let text = ''ALTER TABLE '' @ table @ '' DROP COLUMN '' @ c @ '';''
        in case connect_result p of
             Some e \<Rightarrow> ([], Inl e)
           | None \<Rightarrow>
               ([Acquire, Execute text [], Release],
                (case run_statement p text [] of
                   Inl e \<Rightarrow> Inl e
                 | Inr rows \<Rightarrow> Inr (JArray rows))))"
  unfolding dropColumn_def Let_def column_arg.case alterTable_drop_one query_eval option.case
  by simp

theorem dropColumn_single_as_list_witness:
  "dropColumn one_row_pool ''t'' (Single ''c'')
     = ([Acquire, Execute ''ALTER TABLE t DROP COLUMN c;'' [], Release],
        Inr (JArray [JObject [(''id'', JNum 7)]]))
   \<and> dropColumn one_row_pool ''t'' (Many [''c''])
     = ([Acquire, Execute ''ALTER TABLE t DROP COLUMN c;'' [], Release],
        Inr (JArray [JObject [(''id'', JNum 7)]]))"
  using dropColumn_single_as_list [of one_row_pool "''t''" "''c''"]
  by (simp add: one_row_pool_def)

section \<open>Error wrapping of the exported operations\<close>

text \<open>
  Nine of the ten exported operations catch any failure of their builder, log it and
  throw an error of their own instead. Eight of them do so with constant messages.
\<close>

lemma try_catch_failed:
  "snd m = Inl e \<Longrightarrow>
   try_catch m (\<lambda>error. bind (console_error label error) (\<lambda>u. throw failure))
     = (fst m @ [ConsoleError label e], Inl failure)"
  by (cases m) (simp add: try_catch_def bind_def console_error_def throw_def)

lemma wrapped_operations_rethrow:
  "snd (update p table data w) = Inl e \<Longrightarrow>
     updateTable p table data w =
       (fst (update p table data w) @ [ConsoleError ''Database update error:'' e],
        Inl (Error ''Failed to update the table.''))"
  "snd (create p table cols) = Inl e \<Longrightarrow>
     createTable p table cols =
       (fst (create p table cols) @ [ConsoleError ''Database query error:'' e],
        Inl (Error ''Failed to execute database query.''))"
  "snd (insert_row p table row) = Inl e \<Longrightarrow>
     insertIntoTable p table (Row row) =
       (fst (insert_row p table row)
          @ [ConsoleError (''Error inserting into '' @ apos @ table @ apos @ '':'') e],
        Inl (Error (''Failed to insert into '' @ apos @ table @ apos @ ''.'')))"
  "snd (insertBulk p table rows) = Inl e \<Longrightarrow>
     insertIntoTable p table (Rows rows) =
       (fst (insertBulk p table rows)
          @ [ConsoleError (''Error inserting into '' @ apos @ table @ apos @ '':'') e],
        Inl (Error (''Failed to insert into '' @ apos @ table @ apos @ ''.'')))"
  "snd (select p table (Some (case wo of None \<Rightarrow> [] | Some x \<Rightarrow> x))) = Inl e \<Longrightarrow>
     selectFromTable p table wo =
       (fst (select p table (Some (case wo of None \<Rightarrow> [] | Some x \<Rightarrow> x)))
          @ [ConsoleError ''Database query error:'' e],
        Inl (Error ''Failed to execute database query.''))"
  "snd (drop_object p ''table'' name) = Inl e \<Longrightarrow>
     dropTable p name =
       (fst (drop_object p ''table'' name) @ [ConsoleError ''Database query error:'' e],
        Inl (Error ''Failed to execute database query.''))"
  "snd (drop_object p ''database'' name) = Inl e \<Longrightarrow>
     dropDatabase p name =
       (fst (drop_object p ''database'' name) @ [ConsoleError ''Database query error:'' e],
        Inl (Error ''Failed to execute database query.''))"
  "snd (createDB p name) = Inl e \<Longrightarrow>
     createDatabase p name =
       (fst (createDB p name) @ [ConsoleError ''Database query error:'' e],
        Inl (Error ''Failed to execute database query.''))"
  "snd (alterTable p table \<lparr>add = None, drop_cols = None, modify = Some cols\<rparr>) = Inl e \<Longrightarrow>
     modifyColumns p table cols =
       (fst (alterTable p table \<lparr>add = None, drop_cols = None, modify = Some cols\<rparr>)
          @ [ConsoleError ''Database query error:'' e],
        Inl (Error ''Failed to execute database query.''))"
  unfolding updateTable_def createTable_def insertIntoTable_def selectFromTable_def dropTable_def
    dropDatabase_def createDatabase_def modifyColumns_def Let_def insert_data.case
  by (simp_all only: try_catch_failed append_assoc)

text \<open>
  \<open>addColumns\<close> does the same as long as its message can be built; with a column named
  \<^verbatim>\<open>toString\<close> building the message throws, and that error reaches the caller instead.
\<close>

lemma addColumns_rethrow:
  assumes "snd (alterTable p table \<lparr>add = Some cols, drop_cols = None, modify = None\<rparr>) = Inl e"
    and "''toString'' \<notin> set (map fst cols)"
  shows "addColumns p table cols =
       (fst (alterTable p table \<lparr>add = Some cols, drop_cols = None, modify = None\<rparr>)
          @ [ConsoleError (''Failed to add '' @ apos @ ''[object Object]'' @ apos @ '' to ''
                             @ apos @ table @ apos @ '':'') e],
        Inl (Error (''Failed to add '' @ apos @ ''[object Object]'' @ apos @ '' to ''
                      @ apos @ table @ apos @ ''.'')))"
  using assms
  by (cases "alterTable p table \<lparr>add = Some cols, drop_cols = None, modify = None\<rparr>")
    (simp add: addColumns_def template_of_object_def Object_keys_def try_catch_def bind_def
      console_error_def throw_def ret_def)

lemma addColumns_toString_column:
  assumes "snd (alterTable p table \<lparr>add = Some cols, drop_cols = None, modify = None\<rparr>) = Inl e"
    and "''toString'' \<in> set (map fst cols)"
  shows "addColumns p table cols =
       (fst (alterTable p table \<lparr>add = Some cols, drop_cols = None, modify = None\<rparr>),
        Inl (TypeError ''Cannot convert object to primitive value''))"
  using assms
  by (cases "alterTable p table \<lparr>add = Some cols, drop_cols = None, modify = None\<rparr>")
    (simp add: addColumns_def template_of_object_def Object_keys_def try_catch_def bind_def
      throw_def)

text \<open>
  C8. \<open>dropColumn\<close> is the one exported operation without a \<^verbatim>\<open>try/catch\<close>: at
  \<^verbatim>\<open>dropColumn(t, [])\<close> the validation error of \<open>alterTable\<close> reaches the caller unchanged
  and unlogged, and a rejection by the database does too, whereas its sibling
  \<open>modifyColumns\<close> logs and replaces the error on the same failures.
\<close>

theorem dropColumn_error_not_wrapped:
  "dropColumn one_row_pool ''t'' (Many []) = ([], Inl (Error ''No valid alterations provided.''))
   \<and> modifyColumns one_row_pool ''t'' [] =
       ([ConsoleError ''Database query error:'' (Error ''No valid alterations provided.'')],
        Inl (Error ''Failed to execute database query.''))
   \<and> dropColumn rejecting_pool ''t'' (Single ''c'') =
       ([Acquire, Execute ''ALTER TABLE t DROP COLUMN c;'' [], Release],
        Inl (ClientError ''syntax error''))
   \<and> modifyColumns rejecting_pool ''t'' [(''c'', ''text'')] =
       ([Acquire, Execute ''ALTER TABLE t ALTER COLUMN c TYPE text;'' [], Release,
         ConsoleError ''Database query error:'' (ClientError ''syntax error'')],
        Inl (Error ''Failed to execute database query.''))"
  by (simp add: dropColumn_def modifyColumns_def alterTable_def Object_entries_def query_eval
      try_catch_def bind_def console_error_def throw_def rejecting_pool_def one_row_pool_def)

section \<open>Connection lifecycle of the query wrapper\<close>

text \<open>
  C9, as stated, fails when the pool cannot hand out a connection: then no connection
  is acquired and no statement is executed.
\<close>

theorem query_without_connection:
  "fst (query refusing_pool ''SELECT 1;'' None) = []
   \<and> count_list (fst (query refusing_pool ''SELECT 1;'' None)) Acquire \<noteq> 1
   \<and> length (statements (fst (query refusing_pool ''SELECT 1;'' None))) \<noteq> 1
   \<and> snd (query refusing_pool ''SELECT 1;'' None) = Inl (ClientError ''connection refused'')"
  by (simp add: query_eval refusing_pool_def)

text \<open>
  C9, amended. When the pool hands out a connection, a call of the query wrapper
  acquires exactly that one connection, executes exactly one statement on it and
  releases it, in this order, both when the statement succeeds (the rows are returned)
  and when it is rejected (the error is propagated). When the pool fails to hand out a
  connection, the failure is propagated and nothing is acquired, executed or released.
\<close>

theorem query_connection_lifecycle:
  "query p text params_opt =
     (let params = (case params_opt of None \<Rightarrow> [] | Some ps \<Rightarrow> ps)
      in case connect_result p of
           Some e \<Rightarrow> ([], Inl e)
         | None \<Rightarrow>
             ([Acquire, Execute text params, Release],
              (case run_statement p text params of
                 Inl e \<Rightarrow> Inl e
               | Inr rows \<Rightarrow> Inr (JArray rows))))"
  unfolding Let_def by (rule query_eval)

theorem query_connection_lifecycle_witness:
  "query one_row_pool ''SELECT 1;'' None
     = ([Acquire, Execute ''SELECT 1;'' [], Release], Inr (JArray [JObject [(''id'', JNum 7)]]))
   \<and> query rejecting_pool ''SELECT 1;'' (Some [JNum 3])
     = ([Acquire, Execute ''SELECT 1;'' [JNum 3], Release], Inl (ClientError ''syntax error''))
   \<and> query refusing_pool ''SELECT 1;'' None = ([], Inl (ClientError ''connection refused''))"
  using query_connection_lifecycle [of one_row_pool "''SELECT 1;''" None]
    query_connection_lifecycle [of rejecting_pool "''SELECT 1;''" "Some [JNum 3]"]
    query_connection_lifecycle [of refusing_pool "''SELECT 1;''" None]
  by (simp add: one_row_pool_def rejecting_pool_def refusing_pool_def)

section \<open>Placeholder numbering\<close>

subsection \<open>Decimal rendering and the placeholder scanner\<close>

lemma is_digit_digit_char: "is_digit (digit_char d)"
  by (simp add: digit_char_def is_digit_def)

lemma digit_val_digit_char: "d < 10 \<Longrightarrow> digit_val (digit_char d) = d"
  by (simp add: digit_char_def digit_val_def)

lemma show_nat_digits: "list_all is_digit (show_nat n)"
  by (induction n rule: show_nat.induct) (subst show_nat.simps, simp add: is_digit_digit_char)

lemma show_nat_nonempty: "show_nat n \<noteq> []"
  by (subst show_nat.simps) simp

lemma read_nat_snoc: "read_nat (ds @ [c]) = 10 * read_nat ds + digit_val c"
  by (simp add: read_nat_def)

lemma read_nat_show_nat: "read_nat (show_nat n) = n"
proof (induction n rule: show_nat.induct)
  case (1 n)
  show ?case
  proof (cases "n < 10")
    case True
    then show ?thesis
      by (subst show_nat.simps) (simp add: read_nat_def digit_val_digit_char)
  next
    case False
    with 1 have "read_nat (show_nat (n div 10)) = n div 10" by simp
    with False show ?thesis
      by (subst show_nat.simps) (simp add: read_nat_snoc digit_val_digit_char)
  qed
qed

lemma takeWhile_digits_show_nat:
  "takeWhile is_digit b = [] \<Longrightarrow> takeWhile is_digit (show_nat n @ b) = show_nat n"
  using show_nat_digits [of n] by (simp add: list_all_iff)

lemma takeWhile_digit_append:
  "takeWhile is_digit a = [] \<Longrightarrow> takeWhile is_digit b = [] \<Longrightarrow> takeWhile is_digit (a @ b) = []"
  by (cases a) (auto split: if_splits)

lemma placeholders_digits: "list_all is_digit ds \<Longrightarrow> placeholders (ds @ b) = placeholders b"
  by (induction ds) (auto simp: is_digit_def)

lemma placeholders_skip:
  "placeholders a = [] \<Longrightarrow> takeWhile is_digit b = [] \<Longrightarrow> placeholders (a @ b) = placeholders b"
proof (induction a)
  case Nil
  then show ?case by simp
next
  case (Cons c cs)
  then show ?case
    by (auto simp: takeWhile_digit_append split: if_splits)
qed

lemma placeholders_dollar:
  assumes "takeWhile is_digit b = []"
  shows "placeholders (''$'' @ show_nat n @ b) = n # placeholders b"
  using assms
  by (simp add: takeWhile_digits_show_nat show_nat_nonempty read_nat_show_nat
      placeholders_digits show_nat_digits)


lemma placeholders_skip_plain: "CHR ''$'' \<notin> set a \<Longrightarrow> placeholders (a @ b) = placeholders b"
  by (induction a) auto

lemma placeholders_join_names:
  assumes "\<forall>k\<in>set ks. placeholders k = []" "takeWhile is_digit rest = []"
  shows "placeholders (join '', '' ks @ rest) = placeholders rest"
  using assms
proof (induction ks rule: induct_list012)
  case 1
  then show ?case by simp
next
  case (2 x)
  then show ?case by (simp add: placeholders_skip)
next
  case (3 x y zs)
  then have "placeholders (join '', '' (y # zs) @ rest) = placeholders rest"
    by simp
  moreover have "placeholders (x @ ('', '' @ join '', '' (y # zs) @ rest))
                   = placeholders ('', '' @ join '', '' (y # zs) @ rest)"
    using 3 by (intro placeholders_skip) (simp_all add: is_digit_def)
  ultimately show ?case by simp
qed

lemma placeholders_join_items:
  assumes "\<forall>x\<in>set xs. placeholders (pre x) = []"
    and "CHR ''$'' \<notin> set sep" "sep \<noteq> []" "takeWhile is_digit sep = []"
    and "takeWhile is_digit rest = []"
  shows "placeholders (join sep (map (\<lambda>x. pre x @ ''$'' @ show_nat (num x)) xs) @ rest)
           = map num xs @ placeholders rest"
  using assms(1)
proof (induction xs rule: induct_list012)
  case 1
  then show ?case by simp
next
  case (2 x)
  have "placeholders (pre x @ (''$'' @ show_nat (num x) @ rest))
          = placeholders (''$'' @ show_nat (num x) @ rest)"
    using 2 by (intro placeholders_skip) (simp_all add: is_digit_def)
  then show ?case
    using placeholders_dollar [OF assms(5), of "num x"] by simp
next
  case (3 x y zs)
  define tail where "tail = join sep (map (\<lambda>x. pre x @ ''$'' @ show_nat (num x)) (y # zs)) @ rest"
  have ih: "placeholders tail = map num (y # zs) @ placeholders rest"
    using 3 by (simp add: tail_def)
  have sep_tail: "takeWhile is_digit (sep @ tail) = []"
    using assms(3,4) by (cases sep) (auto split: if_splits)
  have "placeholders (pre x @ (''$'' @ show_nat (num x) @ sep @ tail))
          = placeholders (''$'' @ show_nat (num x) @ sep @ tail)"
    using 3 by (intro placeholders_skip) (simp_all add: is_digit_def)
  also have "\<dots> = num x # placeholders (sep @ tail)"
    using placeholders_dollar [OF sep_tail, of "num x"] by simp
  also have "placeholders (sep @ tail) = placeholders tail"
    using assms(2) by (rule placeholders_skip_plain)
  finally show ?case
    using ih by (simp add: tail_def)
qed

lemma placeholders_join_rows:
  "placeholders
     (join '', '' (map (\<lambda>i. ''('' @ join '', '' (map (\<lambda>j. ''$'' @ show_nat (g i j)) js) @ '')'') rows)
      @ rest)
   = concat (map (\<lambda>i. map (g i) js) rows) @ placeholders rest"
proof (induction rows rule: induct_list012)
  case 1
  then show ?case by simp
next
  case (2 i)
  have "placeholders (join '', '' (map (\<lambda>j. [] @ ''$'' @ show_nat (g i j)) js) @ ('')'' @ rest))
          = map (g i) js @ placeholders ('')'' @ rest)"
    by (rule placeholders_join_items) (simp_all add: is_digit_def)
  then show ?case by simp
next
  case (3 i i' rows)
  define tail where
    "tail = join '', '' (map (\<lambda>i. ''('' @ join '', '' (map (\<lambda>j. ''$'' @ show_nat (g i j)) js) @ '')'')
                           (i' # rows)) @ rest"
  have ih: "placeholders tail = concat (map (\<lambda>i. map (g i) js) (i' # rows)) @ placeholders rest"
    using 3 by (simp add: tail_def)
  have "placeholders (join '', '' (map (\<lambda>j. [] @ ''$'' @ show_nat (g i j)) js) @ ('')'' @ '', '' @ tail))
          = map (g i) js @ placeholders ('')'' @ '', '' @ tail)"
    by (rule placeholders_join_items) (simp_all add: is_digit_def)
  then show ?case
    using ih by (simp add: tail_def)
qed

lemma row_major_indices:
  "concat (map (\<lambda>i. map (\<lambda>j. i * k + j + 1) [0..<k]) [0..<n]) = [1..<Suc (n * k)]"
proof (induction n)
  case 0
  then show ?case by simp
next
  case (Suc n)
  have row: "map (\<lambda>j. n * k + j + 1) [0..<k] = [Suc (n * k)..<Suc (n * k) + k]"
    using map_add_upt [of "Suc (n * k)" k] by (simp add: add.commute)
  have "concat (map (\<lambda>i. map (\<lambda>j. i * k + j + 1) [0..<k]) [0..<Suc n])
          = concat (map (\<lambda>i. map (\<lambda>j. i * k + j + 1) [0..<k]) [0..<n])
              @ map (\<lambda>j. n * k + j + 1) [0..<k]"
    by simp
  also have "\<dots> = [1..<Suc (n * k)] @ [Suc (n * k)..<Suc (n * k) + k]"
    by (simp only: Suc row)
  also have "\<dots> = [1..<Suc (n * k) + k]"
    by (rule upt_add_eq_append [symmetric]) simp
  also have "Suc (n * k) + k = Suc (Suc n * k)"
    by simp
  finally show ?case .
qed


lemma statements_bind_query:
  "connect_result p = None \<Longrightarrow>
   statements (fst (bind (query p text (Some vals)) (\<lambda>result. ret (f result)))) = [(text, vals)]"
  by (simp add: query_eval bind_def ret_def split: sum.splits)

lemma statements_query:
  "connect_result p = None \<Longrightarrow> statements (fst (query p text (Some vals))) = [(text, vals)]"
  by (simp add: query_eval)

lemma placeholders_insert_prefix:
  assumes "placeholders table = []" "\<forall>k\<in>set keys. placeholders k = []"
    "takeWhile is_digit rest = []"
  shows "placeholders (''INSERT INTO '' @ table @ '' ('' @ join '', '' keys @ rest)
           = placeholders rest"
proof -
  have "placeholders (table @ ('' ('' @ join '', '' keys @ rest))
          = placeholders ('' ('' @ join '', '' keys @ rest)"
    using assms(1) by (rule placeholders_skip) (simp add: is_digit_def)
  moreover have "placeholders (join '', '' keys @ rest) = placeholders rest"
    using assms(2,3) by (rule placeholders_join_names)
  ultimately show ?thesis by simp
qed

lemma placeholders_insert_text:
  assumes "placeholders table = []" "\<forall>k\<in>set keys. placeholders k = []"
  shows "placeholders
           (''INSERT INTO '' @ table @ '' ('' @ join '', '' keys @ '') VALUES (''
              @ join '', '' (map (\<lambda>i. ''$'' @ show_nat i) [1..<Suc n]) @ '') RETURNING *;'')
         = [1..<Suc n]"
proof -
  define A where "A = join '', '' (map (\<lambda>i. [] @ ''$'' @ show_nat i) [1..<Suc n]) @ '') RETURNING *;''"
  have "placeholders A = map (\<lambda>i. i) [1..<Suc n] @ placeholders '') RETURNING *;''"
    unfolding A_def by (rule placeholders_join_items) (simp_all add: is_digit_def)
  then have A: "placeholders A = [1..<Suc n]"
    by simp
  have "placeholders (''INSERT INTO '' @ table @ '' ('' @ join '', '' keys @ ('') VALUES ('' @ A))
          = placeholders ('') VALUES ('' @ A)"
    using assms by (rule placeholders_insert_prefix) (simp add: is_digit_def)
  then show ?thesis
    using A by (simp add: A_def)
qed

lemma placeholders_conditions:
  assumes "\<forall>k\<in>set ks. placeholders k = []" "length idx = length ks"
    and "CHR ''$'' \<notin> set sep" "sep \<noteq> []" "takeWhile is_digit sep = []"
    and "takeWhile is_digit rest = []"
  shows "placeholders
           (join sep (map (\<lambda>(k, i). k @ '' = $'' @ show_nat i) (zip ks idx)) @ rest)
         = idx @ placeholders rest"
proof -
  have fn: "(\<lambda>(k, i). k @ '' = $'' @ show_nat i)
              = (\<lambda>x. (fst x @ '' = '') @ ''$'' @ show_nat (snd x))"
    by (simp add: fun_eq_iff case_prod_beta)
  have pre: "\<forall>x\<in>set (zip ks idx). placeholders (fst x @ '' = '') = []"
  proof
    fix x assume "x \<in> set (zip ks idx)"
    then have "fst x \<in> set ks"
      using set_zip_leftD [of "fst x" "snd x" ks idx] by simp
    then have "placeholders (fst x) = []"
      using assms(1) by simp
    then have "placeholders (fst x @ '' = '') = placeholders '' = ''"
      by (rule placeholders_skip) (simp add: is_digit_def)
    then show "placeholders (fst x @ '' = '') = []" by simp
  qed
  have "placeholders
          (join sep (map (\<lambda>x. (fst x @ '' = '') @ ''$'' @ show_nat (snd x)) (zip ks idx)) @ rest)
        = map snd (zip ks idx) @ placeholders rest"
    using pre assms(3-6) by (rule placeholders_join_items)
  then show ?thesis
    using assms(2) by (simp only: fn map_snd_zip)
qed

lemma placeholders_select_text:
  assumes "placeholders table = []" "\<forall>k\<in>set (map fst w). placeholders k = []"
  shows "placeholders
           (''SELECT * FROM '' @ table
              @ (if w = [] then [] else '' WHERE '' @ join '' AND ''
                   (map (\<lambda>(k, i). k @ '' = $'' @ show_nat i) (zip (map fst w) [1..<Suc (length w)])))
              @ '';'')
         = [1..<Suc (length w)]"
proof (cases "w = []")
  case True
  have "placeholders (table @ '';'') = placeholders '';''"
    using assms(1) by (rule placeholders_skip) (simp add: is_digit_def)
  then show ?thesis using True by simp
next
  case False
  define C where "C = join '' AND ''
      (map (\<lambda>(k, i). k @ '' = $'' @ show_nat i) (zip (map fst w) [1..<Suc (length w)])) @ '';''"
  have "placeholders C = [1..<Suc (length w)] @ placeholders '';''"
    unfolding C_def using assms(2)
    by (rule placeholders_conditions) (simp_all add: is_digit_def del: upt_Suc)
  then have C: "placeholders C = [1..<Suc (length w)]"
    by simp
  have "placeholders (table @ ('' WHERE '' @ C)) = placeholders ('' WHERE '' @ C)"
    using assms(1) by (rule placeholders_skip) (simp add: is_digit_def)
  then show ?thesis
    using False C by (simp add: C_def)
qed

lemma placeholders_update_text:
  assumes "placeholders table = []" "\<forall>k\<in>set (map fst data). placeholders k = []"
    "\<forall>k\<in>set (map fst w). placeholders k = []"
  shows "placeholders
           (''UPDATE '' @ table @ '' SET ''
              @ join '', '' (map (\<lambda>(k, i). k @ '' = $'' @ show_nat i)
                              (zip (map fst data) [1..<Suc (length data)]))
              @ '' WHERE ''
              @ join '' AND '' (map (\<lambda>(k, i). k @ '' = $'' @ show_nat i)
                                (zip (map fst w) [Suc (length data)..<Suc (length data + length w)]))
              @ '';'')
         = [1..<Suc (length data + length w)]"
proof -
  define W where "W = join '' AND '' (map (\<lambda>(k, i). k @ '' = $'' @ show_nat i)
      (zip (map fst w) [Suc (length data)..<Suc (length data + length w)])) @ '';''"
  define S where "S = join '', '' (map (\<lambda>(k, i). k @ '' = $'' @ show_nat i)
      (zip (map fst data) [1..<Suc (length data)])) @ ('' WHERE '' @ W)"
  have "placeholders W = [Suc (length data)..<Suc (length data + length w)] @ placeholders '';''"
    unfolding W_def using assms(3)
    by (rule placeholders_conditions) (simp_all add: is_digit_def del: upt_Suc)
  then have W: "placeholders W = [Suc (length data)..<Suc (length data + length w)]"
    by simp
  have "placeholders S = [1..<Suc (length data)] @ placeholders ('' WHERE '' @ W)"
    unfolding S_def using assms(2)
    by (rule placeholders_conditions) (simp_all add: is_digit_def del: upt_Suc)
  then have "placeholders S
               = [1..<Suc (length data)] @ [Suc (length data)..<Suc (length data) + length w]"
    using W by simp
  also have "\<dots> = [1..<Suc (length data) + length w]"
    by (rule upt_add_eq_append [symmetric]) simp
  finally have S: "placeholders S = [1..<Suc (length data + length w)]"
    by simp
  have "placeholders (table @ ('' SET '' @ S)) = placeholders ('' SET '' @ S)"
    using assms(1) by (rule placeholders_skip) (simp add: is_digit_def)
  then show ?thesis
    using S by (simp add: S_def W_def)
qed

lemma placeholders_bulk_text:
  assumes "placeholders table = []" "\<forall>k\<in>set keys. placeholders k = []"
  shows "placeholders
           (''INSERT INTO '' @ table @ '' ('' @ join '', '' keys @ '') VALUES ''
              @ join '', ''
                  (map (\<lambda>i. ''('' @ join '', ''
                                 (map (\<lambda>j. ''$'' @ show_nat (i * k + j + 1)) [0..<k]) @ '')'')
                     [0..<n])
              @ '' RETURNING *;'')
         = [1..<Suc (n * k)]"
proof -
  define R where "R = join '', ''
      (map (\<lambda>i. ''('' @ join '', '' (map (\<lambda>j. ''$'' @ show_nat (i * k + j + 1)) [0..<k]) @ '')'')
         [0..<n]) @ '' RETURNING *;''"
  have "placeholders R
          = concat (map (\<lambda>i. map (\<lambda>j. i * k + j + 1) [0..<k]) [0..<n])
              @ placeholders '' RETURNING *;''"
    unfolding R_def by (rule placeholders_join_rows)
  moreover have "placeholders '' RETURNING *;'' = []"
    by simp
  ultimately have R: "placeholders R = [1..<Suc (n * k)]"
    by (simp only: row_major_indices append_Nil2)
  have "placeholders (''INSERT INTO '' @ table @ '' ('' @ join '', '' keys @ ('') VALUES '' @ R))
          = placeholders ('') VALUES '' @ R)"
    using assms by (rule placeholders_insert_prefix) (simp add: is_digit_def)
  then show ?thesis
    using R by (simp add: R_def)
qed

lemma well_numberedI:
  "statements evs = [(text, params)] \<Longrightarrow> placeholders text = [1..<Suc (length params)]
     \<Longrightarrow> well_numbered evs"
  by (simp add: well_numbered_def)

text \<open>
  C1, as stated, fails: names are interpolated into the text unchecked, so a column named
  \<^verbatim>\<open>$3\<close> puts a placeholder of its own into the statement. The statement of
  \<^verbatim>\<open>insert(t, {"$3": 1})\<close> has the placeholders 3 and 1 and one bound value.
\<close>

theorem placeholders_misnumbered:
  "statements (fst (insert_row one_row_pool ''t'' [(''$3'', JNum 1)]))
     = [(''INSERT INTO t ($3) VALUES ($1) RETURNING *;'', [JNum 1])]
   \<and> placeholders ''INSERT INTO t ($3) VALUES ($1) RETURNING *;'' = [3, 1]
   \<and> \<not> well_numbered (fst (insert_row one_row_pool ''t'' [(''$3'', JNum 1)]))"
  by (simp add: well_numbered_def insert_row_statement query_eval bind_def ret_def
      one_row_pool_def show_nat.simps digit_char_def is_digit_def read_nat_def digit_val_def)

text \<open>
  C1, amended. When the table name and the column names contain no placeholder
  themselves, each of insert, select, update and bulk insert sends exactly one statement,
  and the placeholders of its text are exactly \<open>1, 2, ..., n\<close> in this order, where \<open>n\<close>
  is the number of bound values.
\<close>

theorem placeholders_numbered:
  assumes "connect_result p = None"
    and "placeholders table = []"
    and "\<forall>k\<in>set (map fst data @ map fst w @ map fst (own_props first)). placeholders k = []"
  shows "well_numbered (fst (insert_row p table data))
       \<and> well_numbered (fst (select p table (Some w)))
       \<and> well_numbered (fst (update p table data w))
       \<and> well_numbered (fst (insertBulk p table (first # rest)))"
proof -
  have kd: "\<forall>k\<in>set (map fst data). placeholders k = []"
    and kw: "\<forall>k\<in>set (map fst w). placeholders k = []"
    and kf: "\<forall>k\<in>set (map fst (own_props first)). placeholders k = []"
    using assms(3) by auto
  have "well_numbered (fst (insert_row p table data))"
    unfolding insert_row_statement
    by (rule well_numberedI [OF statements_bind_query [OF assms(1)]])
      (simp only: length_map placeholders_insert_text [OF assms(2) kd])
  moreover have "well_numbered (fst (select p table (Some w)))"
    unfolding select_statement Let_def option.case
    by (rule well_numberedI [OF statements_bind_query [OF assms(1), of _ _ "\<lambda>x. x"]])
      (simp only: length_map placeholders_select_text [OF assms(2) kw])
  moreover have "well_numbered (fst (update p table data w))"
    unfolding update_statement
    by (rule well_numberedI [OF statements_bind_query [OF assms(1), of _ _ "\<lambda>x. JUndefined"]])
      (simp only: length_map length_append placeholders_update_text [OF assms(2) kd kw])
  moreover have "well_numbered (fst (insertBulk p table (first # rest)))"
    unfolding insertBulk_statement Let_def
    by (rule well_numberedI [OF statements_query [OF assms(1)]])
      (simp only: length_concat_rows length_Cons placeholders_bulk_text [OF assms(2) kf])
  ultimately show ?thesis by simp
qed

theorem placeholders_numbered_witness:
  "connect_result one_row_pool = None \<and> placeholders ''t'' = []
   \<and> placeholders ''a'' = [] \<and> placeholders ''b'' = [] \<and> placeholders ''id'' = []
   \<and> well_numbered (fst (insert_row one_row_pool ''t'' [(''a'', JNum 1), (''b'', JNum 2)]))
   \<and> well_numbered (fst (select one_row_pool ''t'' (Some [(''id'', JNum 1)])))
   \<and> well_numbered (fst (update one_row_pool ''t'' [(''a'', JNum 1), (''b'', JNum 2)] [(''id'', JNum 1)]))
   \<and> well_numbered (fst (insertBulk one_row_pool ''t''
         [literal [(''a'', JNum 1), (''b'', JNum 2)], literal [(''a'', JNum 3), (''b'', JNum 4)]]))"
  using placeholders_numbered [of one_row_pool "''t''" "[(''a'', JNum 1), (''b'', JNum 2)]"
      "[(''id'', JNum 1)]" "literal [(''a'', JNum 1), (''b'', JNum 2)]"
      "[literal [(''a'', JNum 3), (''b'', JNum 4)]]"]
  by (simp add: one_row_pool_def literal_def)

end
